theory Spec2Isabelle
  imports Main "HOL-Library.Product_Lexorder"
begin

section \<open>Text, JSON values and thrown values\<close>

text \<open>
  JavaScript text is modelled as \<^typ>\<open>string\<close>: a sequence of code units of the
  8-bit range. The two string built-ins the pages and the client use are written out
  for that range.

  \<open>trim\<close> is \<open>String.prototype.trim\<close>: it drops white space and line terminators
  (TAB, LF, VT, FF, CR, SPACE, NBSP in this range) from both ends.
\<close>

definition is_whitespace :: "char \<Rightarrow> bool" where
  "is_whitespace c =
     (c \<in> set [CHR 0x09, CHR 0x0A, CHR 0x0B, CHR 0x0C, CHR 0x0D, CHR 0x20, CHR 0xA0])"

definition trim :: "string \<Rightarrow> string" where
  "trim s = rev (dropWhile is_whitespace (rev (dropWhile is_whitespace s)))"

text \<open>
  \<open>encodeURIComponent\<close> keeps the unreserved characters and writes every other code
  unit as the percent-escaped bytes of its UTF-8 encoding: one byte below 128, two
  bytes from 128 to 255.
\<close>

definition unreserved :: "char \<Rightarrow> bool" where
  "unreserved c =
     (c \<in> set (''ABCDEFGHIJKLMNOPQRSTUVWXYZabcdefghijklmnopqrstuvwxyz0123456789-_.!~*()''
               @ [CHR 0x27]))"

definition hex_digit :: "nat \<Rightarrow> char" where
  "hex_digit n = ''0123456789ABCDEF'' ! (n mod 16)"

definition percent :: "nat \<Rightarrow> string" where
  "percent b = [CHR ''%'', hex_digit (b div 16), hex_digit b]"

definition encode_unit :: "char \<Rightarrow> string" where
  "encode_unit c =
     (if unreserved c then [c]
      else let n = (of_char c :: nat)
           in if n < 128 then percent n
              else percent (192 + n div 64) @ percent (128 + n mod 64))"

definition encodeURIComponent :: "string \<Rightarrow> string" where
  "encodeURIComponent s = concat (map encode_unit s)"

text \<open>
  A JSON value as \<open>Response.json()\<close> parses it. The representation of numbers is
  left open (\<open>'n\<close>): no code below computes with one. An object is the list of its
  properties.
\<close>

datatype 'n json =
    JNull
  | JBool bool
  | JNum 'n
  | JStr string
  | JArr "'n json list"
  | JObj "(string \<times> 'n json) list"

text \<open>
  A thrown value: an \<open>Error\<close> made by the code, an error of the platform with the
  platform's message, or a value that is not an instance of \<open>Error\<close>.
\<close>

datatype exn =
    Error string
  | TypeError string
  | SyntaxError string
  | RangeError string
  | NonError

text \<open>\<open>err.message\<close>, defined exactly when \<open>err instanceof Error\<close>.\<close>

fun message_of :: "exn \<Rightarrow> string option" where
  "message_of (Error m) = Some m"
| "message_of (TypeError m) = Some m"
| "message_of (SyntaxError m) = Some m"
| "message_of (RangeError m) = Some m"
| "message_of NonError = None"

text \<open>
  The property access \<open>err.detail\<close> on a parsed body: a \<open>TypeError\<close> on \<open>null\<close>
  (the text is the engine's), the property or \<open>undefined\<close> (\<open>None\<close>) on an object,
  \<open>undefined\<close> on every other value.
\<close>

fun detail :: "'n json \<Rightarrow> exn + 'n json option" where
  "detail JNull = Inl (TypeError ''Cannot read properties of null (reading 'detail')'')"
| "detail (JObj props) = Inr (map_of props ''detail'')"
| "detail _ = Inr None"

section \<open>The API client (frontend/src/lib/api.ts)\<close>

subsection \<open>The declared types\<close>

datatype MeetingType = Sales | Coaching

text \<open>The string literal of each member of the union \<open>"sales" | "coaching"\<close>.\<close>

fun MeetingType_value :: "MeetingType \<Rightarrow> string" where
  "MeetingType_value Sales = ''sales''"
| "MeetingType_value Coaching = ''coaching''"

record IngestBody =
  meetingId :: string
  contactId :: string
  type :: MeetingType
  occurredAt :: string
  transcript :: string

record MeetingRecord =
  meetingId :: string
  contactId :: string
  type :: MeetingType
  occurredAt :: string
  transcript :: string
  transcriptHash :: string
  createdAt :: string

record AnalysisDerived =
  topics :: "string list"
  objections :: "string list"
  commitments :: "string list"
  sentiment :: string
  outcome :: string
  summary :: string

record AnalysisRecord =
  meetingId :: string
  contactId :: string
  transcriptHash :: string
  schemaVersion :: string
  promptVersion :: string
  model :: string
  analyzedAt :: string
  derived :: AnalysisDerived

record ContactMeetingsResponse =
  contactId :: string
  meetings :: "MeetingRecord list"
  analyses :: "AnalysisRecord list"

text \<open>The result types of \<open>ingestMeeting\<close> and \<open>analyzeMeeting\<close>, declared inline.\<close>

record IngestResult =
  truth :: MeetingRecord
  derived :: unit
  note' :: string

record TruthRef =
  meetingId :: string
  contactId :: string
  transcriptHash :: string

record AnalyzeResult =
  truth_ref :: TruthRef
  analysis :: AnalysisRecord
  note' :: string

subsection \<open>Requests and responses\<close>

record request =
  url :: string
  method' :: string
  headers :: "(string \<times> string) list"
  body :: "string option"

text \<open>
  The response of \<open>fetch\<close>. \<open>r.json()\<close> has the type \<open>Promise<any>\<close>: the success
  path returns it at the result type \<open>'a\<close> the function declares (\<open>json\<close>), the
  failure path inspects it as a JSON value (\<open>json_untyped\<close>). Either reading rejects
  (\<open>Inl\<close>) when the body is not JSON.
\<close>

record ('a, 'n) response =
  ok :: bool
  status :: nat
  statusText :: string
  json :: "exn + 'a"
  json_untyped :: "exn + 'n json"

text \<open>
  \<open>fetch\<close> is a parameter: it takes the request and the state \<open>'w\<close> of the network
  and the server behind it, and gives a response or rejects, and the next state.
\<close>

type_synonym ('a, 'n, 'w) fetch = "request \<Rightarrow> 'w \<Rightarrow> (exn + ('a, 'n) response) \<times> 'w"

text \<open>The environment: the build-time variable and \<open>JSON.stringify\<close>.\<close>

record 'n env =
  NEXT_PUBLIC_API_URL :: "string option"
  JSON_stringify :: "'n json \<Rightarrow> string"

definition API_BASE :: "'n env \<Rightarrow> string" where
  "API_BASE env =
     (case NEXT_PUBLIC_API_URL env of None \<Rightarrow> ''http://localhost:8000'' | Some u \<Rightarrow> u)"

definition DEFAULT_HEADERS :: "(string \<times> string) list" where
  "DEFAULT_HEADERS =
     [(''Content-Type'', ''application/json''),
      (''x-user-role'', ''operator''),
      (''x-user-id'', ''demo-user'')]"

text \<open>The object \<open>JSON.stringify(body)\<close> serialises: the properties of an \<open>IngestBody\<close>.\<close>

definition IngestBody_json :: "IngestBody \<Rightarrow> 'n json" where
  "IngestBody_json b =
     JObj [(''meetingId'', JStr (IngestBody.meetingId b)),
           (''contactId'', JStr (IngestBody.contactId b)),
           (''type'', JStr (MeetingType_value (IngestBody.type b))),
           (''occurredAt'', JStr (IngestBody.occurredAt b)),
           (''transcript'', JStr (IngestBody.transcript b))]"

text \<open>
  The block \<open>if (!r.ok) { ... throw ... }\<close>, the same in the three functions: the value
  it throws. \<open>JSON.stringify(undefined)\<close> is \<open>undefined\<close>, and \<open>new Error(undefined)\<close>
  has the empty message.
\<close>

definition thrown :: "'n env \<Rightarrow> ('a, 'n) response \<Rightarrow> exn" where
  "thrown env r =
     (let err = (case json_untyped r of
                   Inl _ \<Rightarrow> JObj [(''detail'', JStr (statusText r))]
                 | Inr j \<Rightarrow> j)
      in case detail err of
           Inl e \<Rightarrow> e
         | Inr None \<Rightarrow> Error ''''
         | Inr (Some (JStr d)) \<Rightarrow> Error d
         | Inr (Some j) \<Rightarrow> Error (JSON_stringify env j))"

definition ingest_request :: "'n env \<Rightarrow> IngestBody \<Rightarrow> request" where
  "ingest_request env b =
     \<lparr>url = API_BASE env @ ''/api/meetings'',
      method' = ''POST'',
      headers = DEFAULT_HEADERS,
      body = Some (JSON_stringify env (IngestBody_json b))\<rparr>"

definition ingestMeeting ::
  "'n env \<Rightarrow> (IngestResult, 'n, 'w) fetch \<Rightarrow> IngestBody \<Rightarrow> 'w \<Rightarrow> (exn + IngestResult) \<times> 'w"
where
  "ingestMeeting env fetch b w =
     (case fetch (ingest_request env b) w of
        (Inl e, w') \<Rightarrow> (Inl e, w')
      | (Inr r, w') \<Rightarrow> if \<not> ok r then (Inl (thrown env r), w') else (json r, w'))"

definition analyze_request :: "'n env \<Rightarrow> string \<Rightarrow> request" where
  "analyze_request env mid =
     \<lparr>url = API_BASE env @ ''/api/meetings/'' @ encodeURIComponent mid @ ''/analyze'',
      method' = ''POST'',
      headers = DEFAULT_HEADERS,
      body = None\<rparr>"

definition analyzeMeeting ::
  "'n env \<Rightarrow> (AnalyzeResult, 'n, 'w) fetch \<Rightarrow> string \<Rightarrow> 'w \<Rightarrow> (exn + AnalyzeResult) \<times> 'w"
where
  "analyzeMeeting env fetch mid w =
     (case fetch (analyze_request env mid) w of
        (Inl e, w') \<Rightarrow> (Inl e, w')
      | (Inr r, w') \<Rightarrow> if \<not> ok r then (Inl (thrown env r), w') else (json r, w'))"

text \<open>No method is given to \<open>fetch\<close> here: it is \<open>GET\<close>.\<close>

definition contact_request :: "'n env \<Rightarrow> string \<Rightarrow> request" where
  "contact_request env cid =
     \<lparr>url = API_BASE env @ ''/api/contacts/'' @ encodeURIComponent cid @ ''/meetings'',
      method' = ''GET'',
      headers = DEFAULT_HEADERS,
      body = None\<rparr>"

definition fetchContactMeetings ::
  "'n env \<Rightarrow> (ContactMeetingsResponse, 'n, 'w) fetch \<Rightarrow> string \<Rightarrow> 'w
     \<Rightarrow> (exn + ContactMeetingsResponse) \<times> 'w"
where
  "fetchContactMeetings env fetch cid w =
     (case fetch (contact_request env cid) w of
        (Inl e, w') \<Rightarrow> (Inl e, w')
      | (Inr r, w') \<Rightarrow> if \<not> ok r then (Inl (thrown env r), w') else (json r, w'))"

section \<open>The ingest form (frontend/src/app/ingest/page.tsx)\<close>

text \<open>
  The status \<open>"idle" | "loading" | "success" | "error"\<close> of the form; \<open>Failed\<close> is
  \<open>"error"\<close>.
\<close>

datatype ingest_status = Idle | Loading | Success | Failed

text \<open>The state of the component: one field for each \<open>useState\<close>.\<close>

record IngestPage =
  meetingId :: string
  contactId :: string
  type :: MeetingType
  occurredAt :: string
  transcript :: string
  status :: ingest_status
  message :: string

text \<open>
  The initial state; \<open>now\<close> is \<open>new Date().toISOString()\<close> at the first render.
\<close>

definition IngestPage_init :: "string \<Rightarrow> IngestPage" where
  "IngestPage_init now =
     \<lparr>IngestPage.meetingId = '''', contactId = '''', type = Sales,
      occurredAt = take 16 now, transcript = '''', status = Idle, message = ''''\<rparr>"

text \<open>
  The options of the select, each with the value \<open>setType\<close> stores when it is chosen
  (\<open>e.target.value as MeetingType\<close>).
\<close>

definition type_options :: "(string \<times> MeetingType) list" where
  "type_options = [(''sales'', Sales), (''coaching'', Coaching)]"

text \<open>
  \<open>handleSubmit\<close>. \<open>toISOString\<close> is \<open>new Date(s).toISOString()\<close>, which throws a
  \<open>RangeError\<close> on a date that does not parse; the \<open>catch\<close> takes it as it takes a
  failure of \<open>ingestMeeting\<close>.
\<close>

definition catch_message :: "exn \<Rightarrow> string \<Rightarrow> string" where
  "catch_message err fallback = (case message_of err of Some m \<Rightarrow> m | None \<Rightarrow> fallback)"

text \<open>The object \<open>body\<close> that \<open>handleSubmit\<close> builds from the inputs.\<close>

definition submitted_body :: "IngestPage \<Rightarrow> string \<Rightarrow> IngestBody" where
  "submitted_body s stamp =
     \<lparr>IngestBody.meetingId = trim (IngestPage.meetingId s),
      contactId = trim (IngestPage.contactId s),
      type = IngestPage.type s,
      occurredAt = stamp,
      transcript = trim (IngestPage.transcript s)\<rparr>"

definition handleSubmit ::
  "'n env \<Rightarrow> (string \<Rightarrow> exn + string) \<Rightarrow> (IngestResult, 'n, 'w) fetch \<Rightarrow> IngestPage \<Rightarrow> 'w
     \<Rightarrow> IngestPage \<times> 'w"
where
  "handleSubmit env toISOString fetch s w =
     (let s1 = s\<lparr>status := Loading, message := ''''\<rparr> in
      case toISOString (IngestPage.occurredAt s1) of
        Inl err \<Rightarrow> (s1\<lparr>status := Failed, message := catch_message err ''Request failed''\<rparr>, w)
      | Inr stamp \<Rightarrow>
          (case ingestMeeting env fetch (submitted_body s1 stamp) w of
             (Inl err, w') \<Rightarrow>
               (s1\<lparr>status := Failed, message := catch_message err ''Request failed''\<rparr>, w')
           | (Inr _, w') \<Rightarrow>
               (s1\<lparr>status := Success,
                   message := ''Meeting stored as immutable truth.'',
                   IngestPage.meetingId := '''',
                   IngestPage.contactId := '''',
                   IngestPage.transcript := ''''\<rparr>, w')))"

section \<open>The contact view (the components \<open>ContactsPage\<close> and \<open>MeetingRow\<close>)\<close>

text \<open>The status \<open>"idle" | "loading" | "error"\<close> of the page; \<open>Failed'\<close> is \<open>"error"\<close>.\<close>

datatype contacts_status = Idle' | Loading' | Failed'

text \<open>The state of the page: one field for each \<open>useState\<close>.\<close>

record ContactsPage =
  contactId :: string
  data :: "ContactMeetingsResponse option"
  status :: contacts_status
  error :: string

definition ContactsPage_init :: ContactsPage where
  "ContactsPage_init =
     \<lparr>ContactsPage.contactId = '''', data = None, status = Idle', error = ''''\<rparr>"

text \<open>
  \<open>loadContact\<close>: nothing happens on a blank input (the empty string is falsy);
  otherwise the data is dropped, fetched for the trimmed input and stored, or the
  failure is shown.
\<close>

definition loadContact ::
  "'n env \<Rightarrow> (ContactMeetingsResponse, 'n, 'w) fetch \<Rightarrow> ContactsPage \<Rightarrow> 'w
     \<Rightarrow> ContactsPage \<times> 'w"
where
  "loadContact env fetch s w =
     (if trim (ContactsPage.contactId s) = '''' then (s, w)
      else
        let s1 = s\<lparr>ContactsPage.status := Loading', error := '''', data := None\<rparr> in
        case fetchContactMeetings env fetch (trim (ContactsPage.contactId s1)) w of
          (Inr res, w') \<Rightarrow> (s1\<lparr>data := Some res, ContactsPage.status := Idle'\<rparr>, w')
        | (Inl err, w') \<Rightarrow>
            (s1\<lparr>error := catch_message err ''Failed to fetch'',
                ContactsPage.status := Failed'\<rparr>, w'))"

text \<open>
  The rows of the page: one \<open>MeetingRow\<close> for each meeting of the data, in their
  order, with the first analysis of the data that has the meeting's id
  (\<open>Array.prototype.find\<close>), or none.
\<close>

definition rows :: "ContactsPage \<Rightarrow> (MeetingRecord \<times> AnalysisRecord option) list" where
  "rows s =
     (case data s of
        None \<Rightarrow> []
      | Some d \<Rightarrow>
          map (\<lambda>m. (m, find (\<lambda>a. AnalysisRecord.meetingId a = MeetingRecord.meetingId m)
                          (analyses d)))
              (meetings d))"

text \<open>
  \<open>MeetingRow\<close>: \<open>analysis?.meetingId === meeting.meetingId\<close> is false when no analysis
  is passed. The button "Run LLM analysis" is rendered when it is false.
\<close>

definition isAnalysisForThis :: "MeetingRecord \<Rightarrow> AnalysisRecord option \<Rightarrow> bool" where
  "isAnalysisForThis meeting analysis' =
     (case analysis' of
        None \<Rightarrow> False
      | Some a \<Rightarrow> AnalysisRecord.meetingId a = MeetingRecord.meetingId meeting)"

definition offers_analysis :: "MeetingRecord \<times> AnalysisRecord option \<Rightarrow> bool" where
  "offers_analysis row = (\<not> isAnalysisForThis (fst row) (snd row))"

text \<open>
  \<open>handleAnalyze\<close> of a row of the page, whose \<open>onAnalyzed\<close> is \<open>loadContact\<close>: it is
  called when \<open>analyzeMeeting\<close> returns, and not when it throws (the rejection leaves
  the handler after the \<open>finally\<close>). The flag \<open>analyzing\<close> of the row is set while
  the call is pending and is false again in both cases. The \<open>fetch\<close> of the platform
  is passed at each of the two result types the page reads.
\<close>

definition handleAnalyze ::
  "'n env \<Rightarrow> (AnalyzeResult, 'n, 'w) fetch \<Rightarrow> (ContactMeetingsResponse, 'n, 'w) fetch
     \<Rightarrow> MeetingRecord \<Rightarrow> ContactsPage \<Rightarrow> 'w \<Rightarrow> (exn + unit) \<times> ContactsPage \<times> 'w"
where
  "handleAnalyze env fetch_analysis fetch_contact meeting s w =
     (case analyzeMeeting env fetch_analysis (MeetingRecord.meetingId meeting) w of
        (Inl err, w') \<Rightarrow> (Inl err, s, w')
      | (Inr _, w') \<Rightarrow>
          (case loadContact env fetch_contact s w' of (s', w'') \<Rightarrow> (Inr (), s', w'')))"

section \<open>The backend behind the three routes, from the specification\<close>

text \<open>
  The Python backend (the stores, the analysis agent, the routes and their role check)
  is not among the sources. The definitions of this section follow the specification;
  they use the types the client declares for what the routes take and return.
\<close>

text \<open>Modelled from the spec: the kinds of failure of the backend, absent from the
  sources: the error taxonomy, and the internal-consistency error of the read model.\<close>

datatype failure =
    InvalidInput
  | Forbidden
  | DuplicateId
  | NotFound
  | UpstreamError
  | SchemaViolation
  | Inconsistent

text \<open>Modelled from the spec: the three operations the routes serve, absent from the
  sources: the write (ingest), the analysis, and the read.\<close>

datatype operation = Write | Analyze | Read

text \<open>Modelled from the spec: the role check of the routes, absent from the sources:
  "role-gated by a caller-supplied role claim (operator required for write/analyze; read
  is open)".\<close>

definition role_allows :: "string \<Rightarrow> operation \<Rightarrow> bool" where
  "role_allows role op =
     (case op of
        Write \<Rightarrow> role = ''operator''
      | Analyze \<Rightarrow> role = ''operator''
      | Read \<Rightarrow> True)"

text \<open>Modelled from the spec: what the backend is built on and the spec leaves open: the
  content hasher, which timestamps parse and their order, the parser of the provider's
  structured output (\<open>None\<close> when parsing fails or a field is missing), the fixed set
  of outcomes, and the number of attempts on a provider failure.\<close>

record backend =
  hash :: "string \<Rightarrow> string"
  parseable :: "string \<Rightarrow> bool"
  instant :: "string \<Rightarrow> nat"
  parse_payload :: "string \<Rightarrow> AnalysisDerived option"
  outcomes :: "string list"
  attempts :: nat

text \<open>Modelled from the spec: the enumerated values of \<open>sentiment\<close>.\<close>

definition sentiments :: "string list" where
  "sentiments = [''positive'', ''neutral'', ''negative'']"

text \<open>Modelled from the spec: the two stores of the backend, each a sequence of rows in
  the order of their insertion; no operation below updates or deletes a row.\<close>

record store =
  truth_rows :: "MeetingRecord list"
  derived_rows :: "AnalysisRecord list"

text \<open>Modelled from the spec: the stores before any meeting is ingested.\<close>

definition empty_store :: store where
  "empty_store = \<lparr>truth_rows = [], derived_rows = []\<rparr>"

text \<open>Modelled from the spec: \<open>TruthStore.append\<close>, absent from the sources. The fields
  are validated for shape (non-empty transcript, parseable \<open>occurredAt\<close>; the type is
  of the enum by its type), an existing \<open>meetingId\<close> is rejected, and nothing is
  written on a failure. The record gets the content hash of its transcript and the
  server's timestamp \<open>now\<close>.\<close>

definition append_meeting ::
  "backend \<Rightarrow> string \<Rightarrow> IngestBody \<Rightarrow> store \<Rightarrow> failure + MeetingRecord \<times> store"
where
  "append_meeting B now b st =
     (if IngestBody.transcript b = '''' \<or> \<not> parseable B (IngestBody.occurredAt b)
      then Inl InvalidInput
      else if IngestBody.meetingId b \<in> set (map MeetingRecord.meetingId (truth_rows st))
      then Inl DuplicateId
      else
        let m = \<lparr>MeetingRecord.meetingId = IngestBody.meetingId b,
                 contactId = IngestBody.contactId b,
                 type = IngestBody.type b,
                 occurredAt = IngestBody.occurredAt b,
                 transcript = IngestBody.transcript b,
                 transcriptHash = hash B (IngestBody.transcript b),
                 createdAt = now\<rparr>
        in Inr (m, st\<lparr>truth_rows := truth_rows st @ [m]\<rparr>))"

text \<open>Modelled from the spec: \<open>TruthStore.get\<close>, absent from the sources.\<close>

definition get_meeting :: "store \<Rightarrow> string \<Rightarrow> MeetingRecord option" where
  "get_meeting st mid = find (\<lambda>m. MeetingRecord.meetingId m = mid) (truth_rows st)"

text \<open>Modelled from the spec: \<open>TruthStore.listByContact\<close>, absent from the sources:
  ordered by \<open>occurredAt\<close> ascending, ties broken by \<open>createdAt\<close>.\<close>

definition meetings_by_contact :: "backend \<Rightarrow> store \<Rightarrow> string \<Rightarrow> MeetingRecord list" where
  "meetings_by_contact B st cid =
     sort_key (\<lambda>m. (instant B (MeetingRecord.occurredAt m), instant B (createdAt m)))
       (filter (\<lambda>m. MeetingRecord.contactId m = cid) (truth_rows st))"

text \<open>Modelled from the spec: \<open>DerivedStore.listByContact\<close>, absent from the sources.\<close>

definition analyses_by_contact :: "store \<Rightarrow> string \<Rightarrow> AnalysisRecord list" where
  "analyses_by_contact st cid =
     filter (\<lambda>a. AnalysisRecord.contactId a = cid) (derived_rows st)"

text \<open>Modelled from the spec: the versions in force when an analysis is asked for, and
  the \<open>CacheKey\<close> \<open>(meetingId, transcriptHash, schemaVersion, promptVersion, model)\<close>
  of a stored analysis and of a meeting under these versions.\<close>

record versions =
  schemaVersion :: string
  promptVersion :: string
  model :: string

type_synonym CacheKey = "string \<times> string \<times> string \<times> string \<times> string"

text \<open>Modelled from the spec: the \<open>CacheKey\<close> of a stored analysis, absent from the
  sources.\<close>

definition key_of :: "AnalysisRecord \<Rightarrow> CacheKey" where
  "key_of a =
     (AnalysisRecord.meetingId a, AnalysisRecord.transcriptHash a,
      AnalysisRecord.schemaVersion a, AnalysisRecord.promptVersion a,
      AnalysisRecord.model a)"

text \<open>Modelled from the spec: \<open>CacheKey.build\<close>, absent from the sources: the key of a
  meeting under the versions in force.\<close>

definition build_key :: "MeetingRecord \<Rightarrow> versions \<Rightarrow> CacheKey" where
  "build_key m v =
     (MeetingRecord.meetingId m, MeetingRecord.transcriptHash m,
      versions.schemaVersion v, versions.promptVersion v, versions.model v)"

text \<open>Modelled from the spec: what the external provider answers to one request of
  the agent: a transport or provider failure, or an output.\<close>

datatype provider_reply = Unavailable | Output string

text \<open>Modelled from the spec: the validation of the analysis agent, absent from the
  sources: the output is rejected when it does not parse, a field is missing, or
  \<open>sentiment\<close> or \<open>outcome\<close> is outside the enumerated sets.\<close>

definition accepted :: "backend \<Rightarrow> string \<Rightarrow> AnalysisDerived option" where
  "accepted B raw =
     (case parse_payload B raw of
        None \<Rightarrow> None
      | Some p \<Rightarrow>
          if sentiment p \<in> set sentiments \<and> outcome p \<in> set (outcomes B)
          then Some p else None)"

text \<open>Modelled from the spec: \<open>AnalysisAgent.run\<close>, absent from the sources. \<open>llm i\<close> is
  the provider's answer to the \<open>i\<close>-th request. A rejected output is retried once, a
  second rejection is \<open>SchemaViolation\<close>; a provider failure is retried while
  attempts are left (\<open>t\<close>), then it is \<open>UpstreamError\<close>. Nothing is coerced into a
  default value.\<close>

function run_from ::
  "backend \<Rightarrow> (nat \<Rightarrow> provider_reply) \<Rightarrow> nat \<Rightarrow> bool \<Rightarrow> nat \<Rightarrow> failure + AnalysisDerived"
where
  "run_from B llm 0 retry i = Inl UpstreamError"
| "run_from B llm (Suc t) retry i =
     (case llm i of
        Unavailable \<Rightarrow> run_from B llm t retry (Suc i)
      | Output raw \<Rightarrow>
          (case accepted B raw of
             Some p \<Rightarrow> Inr p
           | None \<Rightarrow>
               if retry then run_from B llm (Suc t) False (Suc i)
               else Inl SchemaViolation))"
  by pat_completeness auto
termination
  by (relation "measure (\<lambda>(B, llm, t, retry, i). 2 * t + (if retry then 1 else 0))") auto

text \<open>Modelled from the spec: the entry of \<open>AnalysisAgent.run\<close>, absent from the
  sources: all attempts are left, no output was rejected yet.\<close>

definition run :: "backend \<Rightarrow> (nat \<Rightarrow> provider_reply) \<Rightarrow> failure + AnalysisDerived" where
  "run B llm = run_from B llm (attempts B) True 0"

text \<open>Modelled from the spec: \<open>DerivedStore.getOrCompute\<close>, absent from the sources: a
  row of the key is returned without computing; otherwise \<open>compute\<close> runs, and its
  payload is persisted as a new row of the key (for the contact \<open>cid\<close>, analysed at
  \<open>now\<close>), or its failure is propagated and nothing is persisted.\<close>

definition getOrCompute ::
  "store \<Rightarrow> CacheKey \<Rightarrow> string \<Rightarrow> string \<Rightarrow> (unit \<Rightarrow> failure + AnalysisDerived)
     \<Rightarrow> failure + AnalysisRecord \<times> store"
where
  "getOrCompute st key cid now compute =
     (case find (\<lambda>a. key_of a = key) (derived_rows st) of
        Some a \<Rightarrow> Inr (a, st)
      | None \<Rightarrow>
          (case compute () of
             Inl f \<Rightarrow> Inl f
           | Inr p \<Rightarrow>
               (case key of (mid, h, sv, pv, md) \<Rightarrow>
                  let a = \<lparr>AnalysisRecord.meetingId = mid, contactId = cid,
                           transcriptHash = h, schemaVersion = sv, promptVersion = pv,
                           model = md, analyzedAt = now, derived = p\<rparr>
                  in Inr (a, st\<lparr>derived_rows := derived_rows st @ [a]\<rparr>))))"

text \<open>Modelled from the spec: the analysis of a meeting (control flow of the overview):
  \<open>TruthStore.get\<close>, the key, \<open>getOrCompute\<close> with the agent; the result refers to
  the truth record.\<close>

definition analyze ::
  "backend \<Rightarrow> versions \<Rightarrow> string \<Rightarrow> (nat \<Rightarrow> provider_reply) \<Rightarrow> string \<Rightarrow> store
     \<Rightarrow> failure + (TruthRef \<times> AnalysisRecord) \<times> store"
where
  "analyze B v now llm mid st =
     (case get_meeting st mid of
        None \<Rightarrow> Inl NotFound
      | Some m \<Rightarrow>
          (case getOrCompute st (build_key m v) (MeetingRecord.contactId m) now
                  (\<lambda>_. run B llm) of
             Inl f \<Rightarrow> Inl f
           | Inr (a, st') \<Rightarrow>
               Inr ((\<lparr>TruthRef.meetingId = MeetingRecord.meetingId m,
                       contactId = MeetingRecord.contactId m,
                       transcriptHash = MeetingRecord.transcriptHash m\<rparr>, a), st')))"

text \<open>Modelled from the spec: \<open>ContactReadModel.forContact\<close>, absent from the sources:
  both sequences are fetched independently and returned unmerged; an analysis row with
  no matching truth record is reported as an internal-consistency error.\<close>

definition forContact :: "backend \<Rightarrow> store \<Rightarrow> string \<Rightarrow> failure + ContactMeetingsResponse" where
  "forContact B st cid =
     (let ms = meetings_by_contact B st cid;
          as = analyses_by_contact st cid
      in if list_all (\<lambda>a. AnalysisRecord.meetingId a
                            \<in> set (map MeetingRecord.meetingId (truth_rows st))) as
         then Inr \<lparr>ContactMeetingsResponse.contactId = cid, meetings = ms, analyses = as\<rparr>
         else Inl Inconsistent)"

text \<open>Modelled from the spec: the three routes, absent from the sources. A call carries
  the caller's role claim and what arrives with it; for a write the server's timestamp,
  for an analysis also the versions in force and the provider's answers.\<close>

datatype call =
    PostMeetings string IngestBody string
  | PostAnalyze string string versions string "nat \<Rightarrow> provider_reply"
  | GetContactMeetings string string

text \<open>Modelled from the spec: what a route answers, absent from the sources: a failure
  of the taxonomy, the persisted meeting, the reference to the truth record with the
  analysis, or the meetings and analyses of a contact.\<close>

datatype result =
    Failure failure
  | Created MeetingRecord
  | Analyzed TruthRef AnalysisRecord
  | Listed ContactMeetingsResponse

text \<open>Modelled from the spec: the handling of a call by its route, absent from the
  sources: the role check first (\<open>Forbidden\<close>), then the operation; a failure leaves
  the stores as they were.\<close>

fun route :: "backend \<Rightarrow> call \<Rightarrow> store \<Rightarrow> result \<times> store" where
  "route B (PostMeetings role b now) st =
     (if \<not> role_allows role Write then (Failure Forbidden, st)
      else case append_meeting B now b st of
             Inl f \<Rightarrow> (Failure f, st)
           | Inr (m, st') \<Rightarrow> (Created m, st'))"
| "route B (PostAnalyze role mid v now llm) st =
     (if \<not> role_allows role Analyze then (Failure Forbidden, st)
      else case analyze B v now llm mid st of
             Inl f \<Rightarrow> (Failure f, st)
           | Inr ((ref, a), st') \<Rightarrow> (Analyzed ref a, st'))"
| "route B (GetContactMeetings role cid) st =
     (if \<not> role_allows role Read then (Failure Forbidden, st)
      else case forContact B st cid of
             Inl f \<Rightarrow> (Failure f, st)
           | Inr r \<Rightarrow> (Listed r, st))"

text \<open>Modelled from the spec: the calls are handled one after the other (the
  concurrency of the specification is left out); the answers of a sequence of calls,
  and the stores after it.\<close>

fun serve :: "backend \<Rightarrow> call list \<Rightarrow> store \<Rightarrow> result list \<times> store" where
  "serve B [] st = ([], st)"
| "serve B (c # cs) st =
     (case route B c st of
        (r, st') \<Rightarrow> (case serve B cs st' of (rs, st'') \<Rightarrow> (r # rs, st'')))"


section \<open>Concrete runs\<close>

text \<open>
  A network that records the requests and answers each with a given reply, an
  environment, and the values of the runs below. The stand-in for \<open>JSON.stringify\<close>
  gives one text for every value: no run below depends on the text.
\<close>

definition replying :: "(exn + ('a, 'n) response) \<Rightarrow> ('a, 'n, request list) fetch" where
  "replying reply req log = (reply, log @ [req])"

definition demo_env :: "unit env" where
  "demo_env = \<lparr>NEXT_PUBLIC_API_URL = None, JSON_stringify = (\<lambda>_. ''{}'')\<rparr>"

definition demo_toISOString :: "string \<Rightarrow> exn + string" where
  "demo_toISOString s =
     (if length s = 16 then Inr (s @ '':00.000Z'') else Inl (RangeError ''Invalid time value''))"

definition demo_body :: IngestBody where
  "demo_body =
     \<lparr>IngestBody.meetingId = ''m1'', contactId = ''c1'', type = Sales,
      occurredAt = ''2024-01-01T10:00:00.000Z'',
      transcript = ''Hello, thanks for joining...''\<rparr>"

definition demo_meeting :: MeetingRecord where
  "demo_meeting =
     \<lparr>MeetingRecord.meetingId = ''m1'', contactId = ''c1'', type = Sales,
      occurredAt = ''2024-01-01T10:00:00.000Z'',
      transcript = ''Hello, thanks for joining...'',
      transcriptHash = ''#Hello, thanks for joining...'',
      createdAt = ''2024-01-02T00:00:00.000Z''\<rparr>"

definition demo_payload :: AnalysisDerived where
  "demo_payload =
     \<lparr>topics = [''pricing''], objections = [], commitments = [''send the offer''],
      sentiment = ''positive'', outcome = ''follow_up'', summary = ''A first call.''\<rparr>"

definition demo_analysis :: "string \<Rightarrow> string \<Rightarrow> AnalysisRecord" where
  "demo_analysis mid md =
     \<lparr>AnalysisRecord.meetingId = mid, contactId = ''c1'',
      transcriptHash = ''#Hello, thanks for joining...'',
      schemaVersion = ''1'', promptVersion = ''1'', model = md,
      analyzedAt = ''2024-01-03T00:00:00.000Z'', derived = demo_payload\<rparr>"

definition demo_listing :: ContactMeetingsResponse where
  "demo_listing =
     \<lparr>ContactMeetingsResponse.contactId = ''c1'',
      meetings = [demo_meeting, demo_meeting\<lparr>MeetingRecord.meetingId := ''m2''\<rparr>],
      analyses = [demo_analysis ''m2'' ''model-a'', demo_analysis ''m2'' ''model-b'']\<rparr>"

definition demo_created :: "(IngestResult, unit) response" where
  "demo_created =
     \<lparr>ok = True, status = 201, statusText = ''Created'',
      json = Inr \<lparr>truth = demo_meeting, derived = (), note' = ''stored''\<rparr>,
      json_untyped = Inr (JObj [])\<rparr>"

definition demo_result :: AnalyzeResult where
  "demo_result =
     \<lparr>truth_ref = \<lparr>TruthRef.meetingId = ''m1'', contactId = ''c1'',
                    transcriptHash = ''#Hello, thanks for joining...''\<rparr>,
      analysis = demo_analysis ''m1'' ''model-a'', note' = ''derived''\<rparr>"

definition demo_analyzed :: "(AnalyzeResult, unit) response" where
  "demo_analyzed =
     \<lparr>ok = True, status = 200, statusText = ''OK'',
      json = Inr demo_result, json_untyped = Inr (JObj [])\<rparr>"

definition demo_listed :: "(ContactMeetingsResponse, unit) response" where
  "demo_listed =
     \<lparr>ok = True, status = 200, statusText = ''OK'',
      json = Inr demo_listing, json_untyped = Inr (JObj [])\<rparr>"

text \<open>
  A failure of the server: its status, and the body \<open>{"detail": d}\<close>. The reading of
  the body at the declared type is not used for a response that is not \<open>ok\<close>; it is
  left as a rejection.
\<close>

definition demo_failure :: "nat \<Rightarrow> string \<Rightarrow> string \<Rightarrow> ('a, unit) response" where
  "demo_failure code reason d =
     \<lparr>ok = False, status = code, statusText = reason,
      json = Inl NonError,
      json_untyped = Inr (JObj [(''detail'', JStr d)])\<rparr>"

definition demo_form :: IngestPage where
  "demo_form =
     \<lparr>IngestPage.meetingId = '' m1 '', contactId = ''c1'', type = Coaching,
      occurredAt = ''2024-01-01T10:00'', transcript = ''Hello'', status = Idle,
      message = ''''\<rparr>"

text \<open>
  The contact view after \<open>c1\<close> is typed and fetched, the same view after the input is
  cleared, and the answer of the server once \<open>m1\<close> is analysed.
\<close>

definition demo_loaded :: ContactsPage where
  "demo_loaded =
     \<lparr>ContactsPage.contactId = ''c1'', data = Some demo_listing, status = Idle',
      error = ''''\<rparr>"

definition demo_cleared :: ContactsPage where
  "demo_cleared = demo_loaded\<lparr>ContactsPage.contactId := ''''\<rparr>"

definition demo_relisting :: ContactMeetingsResponse where
  "demo_relisting =
     demo_listing\<lparr>analyses := demo_analysis ''m1'' ''model-a'' # analyses demo_listing\<rparr>"

definition demo_relisted :: "(ContactMeetingsResponse, unit) response" where
  "demo_relisted =
     \<lparr>ok = True, status = 200, statusText = ''OK'',
      json = Inr demo_relisting, json_untyped = Inr (JObj [])\<rparr>"

text \<open>
  A backend for the runs of the routes: a stand-in hasher, every non-empty timestamp
  parses, the outcomes named by the specification, two attempts, and a parser that
  knows three outputs: a valid payload, a payload with a sentiment outside the set,
  and (every other text) an output that does not parse.
\<close>

definition demo_parse :: "string \<Rightarrow> AnalysisDerived option" where
  "demo_parse raw =
     (if raw = ''valid'' then Some demo_payload
      else if raw = ''off'' then Some (demo_payload\<lparr>sentiment := ''ecstatic''\<rparr>)
      else None)"

definition demo_backend :: backend where
  "demo_backend =
     \<lparr>hash = (\<lambda>t. CHR ''#'' # t),
      parseable = (\<lambda>s. s \<noteq> ''''),
      instant = length,
      parse_payload = demo_parse,
      outcomes = [''closed_won'', ''closed_lost'', ''follow_up'', ''no_decision''],
      attempts = 2\<rparr>"

definition demo_versions :: "string \<Rightarrow> versions" where
  "demo_versions md = \<lparr>versions.schemaVersion = ''1'', promptVersion = ''1'', model = md\<rparr>"

text \<open>The provider answers a payload off the set first, then a valid one.\<close>

definition demo_llm :: "nat \<Rightarrow> provider_reply" where
  "demo_llm i = (if i = 0 then Output ''off'' else Output ''valid'')"

definition demo_calls :: "call list" where
  "demo_calls =
     [PostMeetings ''operator'' demo_body ''2024-01-02T00:00:00.000Z'',
      PostAnalyze ''operator'' ''m1'' (demo_versions ''model-a'') ''2024-01-03T00:00:00.000Z''
        (\<lambda>_. Output ''off''),
      PostAnalyze ''operator'' ''m1'' (demo_versions ''model-a'') ''2024-01-03T00:00:00.000Z''
        demo_llm,
      PostAnalyze ''basic'' ''m1'' (demo_versions ''model-b'') ''2024-01-04T00:00:00.000Z''
        demo_llm,
      GetContactMeetings ''basic'' ''c1'']"

definition demo_store :: store where
  "demo_store =
     \<lparr>truth_rows = [demo_meeting], derived_rows = [demo_analysis ''m1'' ''model-a'']\<rparr>"

section \<open>The properties of the backend's answers\<close>

text \<open>The enumerated fields of an analysis are in their sets.\<close>

definition in_enums :: "backend \<Rightarrow> AnalysisRecord \<Rightarrow> bool" where
  "in_enums B a =
     (sentiment (AnalysisRecord.derived a) \<in> set sentiments \<and>
      outcome (AnalysisRecord.derived a) \<in> set (outcomes B))"



section \<open>Properties of the client and of the pages\<close>

subsection \<open>Helper facts\<close>






lemma trim_c1: "trim ''c1'' = ''c1''"
  by (simp add: trim_def is_whitespace_def)

lemma trim_m1: "trim '' m1 '' = ''m1''"
  by (simp add: trim_def is_whitespace_def)

lemma trim_Hello: "trim ''Hello'' = ''Hello''"
  by (simp add: trim_def is_whitespace_def)

subsection \<open>The contact read path and the pairing of the page\<close>



subsection \<open>The analyze call\<close>



subsection \<open>The ingest call\<close>



subsection \<open>The meeting record and the types the form offers\<close>

text \<open>
  Claim C7. A \<open>MeetingRecord\<close> is determined by its seven fields \<open>meetingId\<close>,
  \<open>contactId\<close>, \<open>type\<close>, \<open>occurredAt\<close>, \<open>transcript\<close>, \<open>transcriptHash\<close>,
  \<open>createdAt\<close>; its \<open>type\<close> is one of the two values \<open>sales\<close> and \<open>coaching\<close>; the
  select of the ingest form offers these two values, each under its own literal, and
  the form starts on one of them.
\<close>

theorem meeting_shape:
  fixes m m' :: MeetingRecord
  shows
  "(m = m' \<longleftrightarrow>
      MeetingRecord.meetingId m = MeetingRecord.meetingId m' \<and>
      MeetingRecord.contactId m = MeetingRecord.contactId m' \<and>
      MeetingRecord.type m = MeetingRecord.type m' \<and>
      MeetingRecord.occurredAt m = MeetingRecord.occurredAt m' \<and>
      MeetingRecord.transcript m = MeetingRecord.transcript m' \<and>
      MeetingRecord.transcriptHash m = MeetingRecord.transcriptHash m' \<and>
      createdAt m = createdAt m') \<and>
   (MeetingRecord.type m = Sales \<or> MeetingRecord.type m = Coaching) \<and>
   Sales \<noteq> Coaching \<and>
   map snd type_options = [Sales, Coaching] \<and>
   map fst type_options = map (MeetingType_value \<circ> snd) type_options \<and>
   IngestPage.type (IngestPage_init now) \<in> set (map snd type_options)"
proof -
  have ext: "m = m' \<longleftrightarrow>
      MeetingRecord.meetingId m = MeetingRecord.meetingId m' \<and>
      MeetingRecord.contactId m = MeetingRecord.contactId m' \<and>
      MeetingRecord.type m = MeetingRecord.type m' \<and>
      MeetingRecord.occurredAt m = MeetingRecord.occurredAt m' \<and>
      MeetingRecord.transcript m = MeetingRecord.transcript m' \<and>
      MeetingRecord.transcriptHash m = MeetingRecord.transcriptHash m' \<and>
      createdAt m = createdAt m'"
    by (cases m, cases m') auto
  have enum: "MeetingRecord.type m = Sales \<or> MeetingRecord.type m = Coaching"
    by (cases "MeetingRecord.type m") simp_all
  have form: "map snd type_options = [Sales, Coaching] \<and>
   map fst type_options = map (MeetingType_value \<circ> snd) type_options \<and>
   IngestPage.type (IngestPage_init now) \<in> set (map snd type_options)"
    by (simp add: type_options_def IngestPage_init_def)
  from ext enum form show ?thesis by blast
qed

subsection \<open>Failures of the three calls\<close>




subsection \<open>The action of a meeting row\<close>

text \<open>
  Claim C9, as amended. A row of the contact view offers "Run LLM analysis" exactly
  when no analysis of the fetched data has the row's \<open>meetingId\<close>. When
  \<open>analyzeMeeting\<close> returns, \<open>loadContact\<close> runs in the state the analysis left: it
  fetches the contact whose id is in the input now, trimmed, and stores the result
  (or shows the failure); on a blank input it fetches nothing and the page stays as it
  is. When \<open>analyzeMeeting\<close> throws, the page stays as it is.
\<close>

theorem analysis_offered_and_reload:
  assumes "data s = Some d"
  shows
  "(\<forall>row \<in> set (rows s).
      offers_analysis row \<longleftrightarrow>
        (\<forall>a \<in> set (analyses d).
           AnalysisRecord.meetingId a \<noteq> MeetingRecord.meetingId (fst row))) \<and>
   (\<forall>v w1. analyzeMeeting env fetch_a (MeetingRecord.meetingId m) w = (Inr v, w1) \<longrightarrow>
      handleAnalyze env fetch_a fetch_c m s w
        = (case loadContact env fetch_c s w1 of (s', w2) \<Rightarrow> (Inr (), s', w2))) \<and>
   (\<forall>e w1. analyzeMeeting env fetch_a (MeetingRecord.meetingId m) w = (Inl e, w1) \<longrightarrow>
      handleAnalyze env fetch_a fetch_c m s w = (Inl e, s, w1)) \<and>
   (\<forall>w1. trim (ContactsPage.contactId s) = '''' \<longrightarrow> loadContact env fetch_c s w1 = (s, w1)) \<and>
   (\<forall>w1. trim (ContactsPage.contactId s) \<noteq> '''' \<longrightarrow>
      loadContact env fetch_c s w1
        = (case fetchContactMeetings env fetch_c (trim (ContactsPage.contactId s)) w1 of
             (Inr res, w2) \<Rightarrow>
               (s\<lparr>data := Some res, ContactsPage.status := Idle', error := ''''\<rparr>, w2)
           | (Inl err, w2) \<Rightarrow>
               (s\<lparr>data := None, ContactsPage.status := Failed',
                  error := catch_message err ''Failed to fetch''\<rparr>, w2)))"
proof -
  have offered: "\<forall>row \<in> set (rows s).
      offers_analysis row \<longleftrightarrow>
        (\<forall>a \<in> set (analyses d).
           AnalysisRecord.meetingId a \<noteq> MeetingRecord.meetingId (fst row))"
    using assms
    by (auto simp: rows_def offers_analysis_def isAnalysisForThis_def find_None_iff
             split: option.splits dest: find_Some_iff[THEN iffD1])
  have succeeded: "\<forall>v w1. analyzeMeeting env fetch_a (MeetingRecord.meetingId m) w = (Inr v, w1) \<longrightarrow>
      handleAnalyze env fetch_a fetch_c m s w
        = (case loadContact env fetch_c s w1 of (s', w2) \<Rightarrow> (Inr (), s', w2))"
    by (simp add: handleAnalyze_def)
  have failed: "\<forall>e w1. analyzeMeeting env fetch_a (MeetingRecord.meetingId m) w = (Inl e, w1) \<longrightarrow>
      handleAnalyze env fetch_a fetch_c m s w = (Inl e, s, w1)"
    by (simp add: handleAnalyze_def)
  have blank: "\<forall>w1. trim (ContactsPage.contactId s) = '''' \<longrightarrow>
      loadContact env fetch_c s w1 = (s, w1)"
    by (simp add: loadContact_def)
  have reload: "\<forall>w1. trim (ContactsPage.contactId s) \<noteq> '''' \<longrightarrow>
      loadContact env fetch_c s w1
        = (case fetchContactMeetings env fetch_c (trim (ContactsPage.contactId s)) w1 of
             (Inr res, w2) \<Rightarrow>
               (s\<lparr>data := Some res, ContactsPage.status := Idle', error := ''''\<rparr>, w2)
           | (Inl err, w2) \<Rightarrow>
               (s\<lparr>data := None, ContactsPage.status := Failed',
                  error := catch_message err ''Failed to fetch''\<rparr>, w2))"
    by (auto simp: loadContact_def Let_def split: prod.splits sum.splits)
  from offered succeeded failed blank reload show ?thesis by blast
qed

theorem analysis_offered_and_reload_witness:
  "data demo_loaded = Some demo_listing \<and>
   rows demo_loaded
     = [(demo_meeting, None),
        (demo_meeting\<lparr>MeetingRecord.meetingId := ''m2''\<rparr>,
         Some (demo_analysis ''m2'' ''model-a''))] \<and>
   map offers_analysis (rows demo_loaded) = [True, False] \<and>
   handleAnalyze demo_env (replying (Inr demo_analyzed)) (replying (Inr demo_relisted))
      demo_meeting demo_loaded []
     = (Inr (), demo_loaded\<lparr>data := Some demo_relisting\<rparr>,
        [analyze_request demo_env ''m1'', contact_request demo_env ''c1'']) \<and>
   handleAnalyze demo_env (replying (Inr (demo_failure 502 ''Bad Gateway'' ''Provider timed out'')))
      (replying (Inr demo_relisted)) demo_meeting demo_loaded []
     = (Inl (Error ''Provider timed out''), demo_loaded, [analyze_request demo_env ''m1''])"
proof -
  have d: "data demo_loaded = Some demo_listing"
    by (simp add: demo_loaded_def)
  have rws: "rows demo_loaded
     = [(demo_meeting, None),
        (demo_meeting\<lparr>MeetingRecord.meetingId := ''m2''\<rparr>,
         Some (demo_analysis ''m2'' ''model-a''))]"
    by (simp add: rows_def demo_loaded_def demo_listing_def demo_analysis_def demo_meeting_def)
  have an: "analyzeMeeting demo_env (replying (Inr demo_analyzed))
               (MeetingRecord.meetingId demo_meeting) []
     = (Inr demo_result, [analyze_request demo_env ''m1''])"
    by (simp add: analyzeMeeting_def replying_def demo_analyzed_def demo_meeting_def)
  have t: "trim (ContactsPage.contactId demo_loaded) = ''c1''"
    by (simp add: demo_loaded_def trim_c1)
  have ft: "fetchContactMeetings demo_env (replying (Inr demo_relisted)) ''c1''
               [analyze_request demo_env ''m1'']
    = (Inr demo_relisting, [analyze_request demo_env ''m1'', contact_request demo_env ''c1''])"
    by (simp add: fetchContactMeetings_def replying_def demo_relisted_def)
  note th = analysis_offered_and_reload[OF d, of demo_env "replying (Inr demo_analyzed)"
        demo_meeting "[]" "replying (Inr demo_relisted)"]
  have offers: "map offers_analysis (rows demo_loaded) = [True, False]"
  proof -
    from th have "\<forall>row \<in> set (rows demo_loaded).
      offers_analysis row \<longleftrightarrow>
        (\<forall>a \<in> set (analyses demo_listing).
           AnalysisRecord.meetingId a \<noteq> MeetingRecord.meetingId (fst row))"
      by blast
    then show ?thesis
      unfolding rws by (simp add: demo_listing_def demo_analysis_def demo_meeting_def)
  qed
  have run: "handleAnalyze demo_env (replying (Inr demo_analyzed)) (replying (Inr demo_relisted))
      demo_meeting demo_loaded []
     = (Inr (), demo_loaded\<lparr>data := Some demo_relisting\<rparr>,
        [analyze_request demo_env ''m1'', contact_request demo_env ''c1''])"
  proof -
    from th an have "handleAnalyze demo_env (replying (Inr demo_analyzed))
        (replying (Inr demo_relisted)) demo_meeting demo_loaded []
      = (case loadContact demo_env (replying (Inr demo_relisted)) demo_loaded
                [analyze_request demo_env ''m1''] of (s', w2) \<Rightarrow> (Inr (), s', w2))"
      by blast
    moreover from th t have "loadContact demo_env (replying (Inr demo_relisted)) demo_loaded
                [analyze_request demo_env ''m1'']
        = (case fetchContactMeetings demo_env (replying (Inr demo_relisted))
                  (trim (ContactsPage.contactId demo_loaded)) [analyze_request demo_env ''m1''] of
             (Inr res, w2) \<Rightarrow>
               (demo_loaded\<lparr>data := Some res, ContactsPage.status := Idle', error := ''''\<rparr>, w2)
           | (Inl err, w2) \<Rightarrow>
               (demo_loaded\<lparr>data := None, ContactsPage.status := Failed',
                  error := catch_message err ''Failed to fetch''\<rparr>, w2))"
      by simp
    ultimately show ?thesis
      by (simp add: t ft) (simp add: demo_loaded_def)
  qed
  have refused: "handleAnalyze demo_env
      (replying (Inr (demo_failure 502 ''Bad Gateway'' ''Provider timed out'')))
      (replying (Inr demo_relisted)) demo_meeting demo_loaded []
     = (Inl (Error ''Provider timed out''), demo_loaded, [analyze_request demo_env ''m1''])"
  proof -
    have "analyzeMeeting demo_env
        (replying (Inr (demo_failure 502 ''Bad Gateway'' ''Provider timed out'')))
        (MeetingRecord.meetingId demo_meeting) []
      = (Inl (Error ''Provider timed out''), [analyze_request demo_env ''m1''])"
      by (simp add: analyzeMeeting_def replying_def demo_failure_def thrown_def demo_meeting_def)
    with analysis_offered_and_reload[OF d, of demo_env
        "replying (Inr (demo_failure 502 ''Bad Gateway'' ''Provider timed out''))"
        demo_meeting "[]" "replying (Inr demo_relisted)"]
    show ?thesis by blast
  qed
  from d rws offers run refused show ?thesis by simp
qed

text \<open>
  Claim C9 as stated fails: after the data of \<open>c1\<close> is fetched and the input is
  cleared, the row of \<open>m1\<close> still offers the analysis; the analysis succeeds, and the
  only request is the \<open>POST\<close> of the analysis: the contact data is not fetched again.
\<close>

theorem refetch_counterexample:
  "loadContact demo_env (replying (Inr demo_listed))
      (ContactsPage_init\<lparr>ContactsPage.contactId := ''c1''\<rparr>) []
     = (demo_loaded, [contact_request demo_env ''c1'']) \<and>
   demo_cleared = demo_loaded\<lparr>ContactsPage.contactId := ''''\<rparr> \<and>
   rows demo_cleared ! 0 = (demo_meeting, None) \<and>
   offers_analysis (demo_meeting, None) \<and>
   handleAnalyze demo_env (replying (Inr demo_analyzed)) (replying (Inr demo_relisted))
      demo_meeting demo_cleared []
     = (Inr (), demo_cleared, [analyze_request demo_env ''m1''])"
proof -
  have load: "loadContact demo_env (replying (Inr demo_listed))
      (ContactsPage_init\<lparr>ContactsPage.contactId := ''c1''\<rparr>) []
     = (demo_loaded, [contact_request demo_env ''c1''])"
    by (simp add: loadContact_def Let_def ContactsPage_init_def trim_c1
          fetchContactMeetings_def replying_def demo_listed_def demo_loaded_def)
  have row: "rows demo_cleared ! 0 = (demo_meeting, None)"
    by (simp add: rows_def demo_cleared_def demo_loaded_def demo_listing_def
          demo_analysis_def demo_meeting_def)
  have offer: "offers_analysis (demo_meeting, None)"
    by (simp add: offers_analysis_def isAnalysisForThis_def)
  have run: "handleAnalyze demo_env (replying (Inr demo_analyzed)) (replying (Inr demo_relisted))
      demo_meeting demo_cleared []
     = (Inr (), demo_cleared, [analyze_request demo_env ''m1''])"
    by (simp add: handleAnalyze_def analyzeMeeting_def replying_def demo_analyzed_def
          loadContact_def demo_cleared_def demo_loaded_def trim_def demo_meeting_def)
  from load row offer run show ?thesis by (simp add: demo_cleared_def)
qed

subsection \<open>The inputs of the ingest form after a submission\<close>

text \<open>
  Claim C10. A submission ends in success or in failure, and in success exactly when
  the date converts and \<open>ingestMeeting\<close> returns. After a success the inputs
  \<open>meetingId\<close>, \<open>contactId\<close> and \<open>transcript\<close> are empty; after a failure they are
  as they were. \<open>type\<close> and \<open>occurredAt\<close> are as they were in both cases.
\<close>

theorem handleSubmit_inputs:
  assumes "handleSubmit env toISOString fetch s w = (s', w')"
  shows "IngestPage.type s' = IngestPage.type s \<and>
         IngestPage.occurredAt s' = IngestPage.occurredAt s \<and>
         (IngestPage.status s' = Success \<or> IngestPage.status s' = Failed) \<and>
         (IngestPage.status s' = Success \<longleftrightarrow>
            (\<exists>stamp r. toISOString (IngestPage.occurredAt s) = Inr stamp \<and>
               fst (ingestMeeting env fetch (submitted_body s stamp) w) = Inr r)) \<and>
         (IngestPage.status s' = Success \<longrightarrow>
            IngestPage.meetingId s' = '''' \<and> IngestPage.contactId s' = '''' \<and>
            IngestPage.transcript s' = '''') \<and>
         (IngestPage.status s' = Failed \<longrightarrow>
            IngestPage.meetingId s' = IngestPage.meetingId s \<and>
            IngestPage.contactId s' = IngestPage.contactId s \<and>
            IngestPage.transcript s' = IngestPage.transcript s)"
  using assms
  by (auto simp: handleSubmit_def Let_def submitted_body_def split: sum.splits prod.splits)

theorem handleSubmit_inputs_witness:
  "handleSubmit demo_env demo_toISOString (replying (Inr demo_created)) demo_form []
     = (demo_form\<lparr>IngestPage.status := Success,
                   message := ''Meeting stored as immutable truth.'',
                   IngestPage.meetingId := '''', IngestPage.contactId := '''',
                   IngestPage.transcript := ''''\<rparr>,
        [ingest_request demo_env
           \<lparr>IngestBody.meetingId = ''m1'', contactId = ''c1'', type = Coaching,
            occurredAt = ''2024-01-01T10:00:00.000Z'', transcript = ''Hello''\<rparr>]) \<and>
   handleSubmit demo_env demo_toISOString
      (replying (Inr (demo_failure 409 ''Conflict'' ''Meeting already exists''))) demo_form []
     = (demo_form\<lparr>IngestPage.status := Failed, message := ''Meeting already exists''\<rparr>,
        [ingest_request demo_env
           \<lparr>IngestBody.meetingId = ''m1'', contactId = ''c1'', type = Coaching,
            occurredAt = ''2024-01-01T10:00:00.000Z'', transcript = ''Hello''\<rparr>]) \<and>
   IngestPage.type demo_form = Coaching \<and>
   IngestPage.occurredAt demo_form = ''2024-01-01T10:00'' \<and>
   IngestPage.meetingId demo_form = '' m1 ''"
proof -
  have ok: "handleSubmit demo_env demo_toISOString (replying (Inr demo_created)) demo_form []
     = (demo_form\<lparr>IngestPage.status := Success,
                   message := ''Meeting stored as immutable truth.'',
                   IngestPage.meetingId := '''', IngestPage.contactId := '''',
                   IngestPage.transcript := ''''\<rparr>,
        [ingest_request demo_env
           \<lparr>IngestBody.meetingId = ''m1'', contactId = ''c1'', type = Coaching,
            occurredAt = ''2024-01-01T10:00:00.000Z'', transcript = ''Hello''\<rparr>])"
    by (simp add: handleSubmit_def Let_def ingestMeeting_def replying_def demo_created_def
          demo_toISOString_def demo_form_def submitted_body_def trim_m1 trim_c1 trim_Hello)
  have ko: "handleSubmit demo_env demo_toISOString
      (replying (Inr (demo_failure 409 ''Conflict'' ''Meeting already exists''))) demo_form []
     = (demo_form\<lparr>IngestPage.status := Failed, message := ''Meeting already exists''\<rparr>,
        [ingest_request demo_env
           \<lparr>IngestBody.meetingId = ''m1'', contactId = ''c1'', type = Coaching,
            occurredAt = ''2024-01-01T10:00:00.000Z'', transcript = ''Hello''\<rparr>])"
    by (simp add: handleSubmit_def Let_def ingestMeeting_def replying_def demo_failure_def
          thrown_def catch_message_def
          demo_toISOString_def demo_form_def submitted_body_def trim_m1 trim_c1 trim_Hello)
  from handleSubmit_inputs[OF ok] handleSubmit_inputs[OF ko] ok ko
  show ?thesis
    by (simp add: demo_form_def)
qed

section \<open>Properties of the backend, from the specification\<close>

subsection \<open>Helper facts: the agent and the stores\<close>

lemma accepted_contained:
  "accepted B raw = Some p \<Longrightarrow> sentiment p \<in> set sentiments \<and> outcome p \<in> set (outcomes B)"
  by (auto simp: accepted_def split: option.splits if_splits)

lemma run_from_contained:
  "run_from B llm t retry i = Inr p
     \<Longrightarrow> sentiment p \<in> set sentiments \<and> outcome p \<in> set (outcomes B)"
proof (induction B llm t retry i rule: run_from.induct)
  case (1 B llm retry i)
  then show ?case by simp
next
  case (2 B llm t retry i)
  show ?case
  proof (cases "llm i")
    case Unavailable
    with 2 show ?thesis by simp
  next
    case (Output raw)
    show ?thesis
    proof (cases "accepted B raw")
      case None
      with 2 Output show ?thesis by (cases retry) simp_all
    next
      case (Some q)
      with 2 Output have "q = p" by simp
      with Some show ?thesis by (simp add: accepted_contained)
    qed
  qed
qed

lemma run_from_failures:
  "run_from B llm t retry i = Inl f \<Longrightarrow> f = UpstreamError \<or> f = SchemaViolation"
proof (induction B llm t retry i rule: run_from.induct)
  case (1 B llm retry i)
  then show ?case by simp
next
  case (2 B llm t retry i)
  show ?case
  proof (cases "llm i")
    case Unavailable
    with 2 show ?thesis by simp
  next
    case (Output raw)
    show ?thesis
    proof (cases "accepted B raw")
      case None
      with 2 Output show ?thesis by (cases retry) simp_all
    next
      case (Some q)
      with 2 Output show ?thesis by simp
    qed
  qed
qed

lemma getOrCompute_contained:
  assumes "\<forall>a \<in> set (derived_rows st). in_enums B a"
    and "\<And>p. compute () = Inr p
           \<Longrightarrow> sentiment p \<in> set sentiments \<and> outcome p \<in> set (outcomes B)"
    and "getOrCompute st key cid now compute = Inr (a, st')"
  shows "in_enums B a \<and> (\<forall>a \<in> set (derived_rows st'). in_enums B a)"
proof (cases "find (\<lambda>a. key_of a = key) (derived_rows st)")
  case (Some a0)
  with assms(3) have "a = a0" "st' = st" by (simp_all add: getOrCompute_def)
  moreover from Some have "a0 \<in> set (derived_rows st)"
    by (auto simp: find_Some_iff)
  ultimately show ?thesis using assms(1) by simp
next
  case None
  with assms(3) obtain p where p: "compute () = Inr p"
    by (auto simp: getOrCompute_def split: sum.splits)
  from assms(2)[OF p] None assms(3) p assms(1) show ?thesis
    by (auto simp: getOrCompute_def in_enums_def Let_def split: prod.splits)
qed

lemma analyze_contained:
  assumes "\<forall>a \<in> set (derived_rows st). in_enums B a"
    and "analyze B v now llm mid st = Inr ((ref, a), st')"
  shows "in_enums B a \<and> (\<forall>a \<in> set (derived_rows st'). in_enums B a)"
proof -
  from assms(2) obtain m where
    g: "getOrCompute st (build_key m v) (MeetingRecord.contactId m) now (\<lambda>_. run B llm)
          = Inr (a, st')"
    by (auto simp: analyze_def split: option.splits sum.splits prod.splits)
  show ?thesis
    by (rule getOrCompute_contained[OF assms(1) _ g]) (simp add: run_def run_from_contained)
qed

lemma forContact_analyses:
  "forContact B st cid = Inr d \<Longrightarrow> set (analyses d) \<subseteq> set (derived_rows st)"
  by (auto simp: forContact_def Let_def analyses_by_contact_def split: if_splits)

lemma append_meeting_derived:
  "append_meeting B now b st = Inr (m, st') \<Longrightarrow> derived_rows st' = derived_rows st"
  by (auto simp: append_meeting_def Let_def split: if_splits)

lemma route_contained:
  assumes "\<forall>a \<in> set (derived_rows st). in_enums B a"
    and "route B c st = (r, st')"
  shows "(\<forall>a \<in> set (derived_rows st'). in_enums B a) \<and>
         (\<forall>ref a. r = Analyzed ref a \<longrightarrow> in_enums B a) \<and>
         (\<forall>d. r = Listed d \<longrightarrow> (\<forall>a \<in> set (analyses d). in_enums B a))"
proof (cases c)
  case (PostMeetings role b now)
  with assms show ?thesis
    by (auto split: if_splits sum.splits prod.splits dest: append_meeting_derived)
next
  case (PostAnalyze role mid v now llm)
  show ?thesis
  proof (cases "role_allows role Analyze")
    case False
    with assms PostAnalyze show ?thesis by auto
  next
    case True
    show ?thesis
    proof (cases "analyze B v now llm mid st")
      case (Inl f)
      with assms PostAnalyze True show ?thesis by auto
    next
      case (Inr x)
      then obtain ref a st1 where x: "analyze B v now llm mid st = Inr ((ref, a), st1)"
        by (cases x) auto
      with assms PostAnalyze True have "r = Analyzed ref a" "st' = st1" by auto
      with analyze_contained[OF assms(1) x] show ?thesis by simp
    qed
  qed
next
  case (GetContactMeetings role cid)
  with assms show ?thesis
    by (auto split: if_splits sum.splits dest: forContact_analyses)
qed

lemma serve_contained:
  "\<forall>a \<in> set (derived_rows st). in_enums B a \<Longrightarrow> serve B calls st = (rs, st')
     \<Longrightarrow> (\<forall>a \<in> set (derived_rows st'). in_enums B a) \<and>
        (\<forall>r \<in> set rs.
           (\<forall>ref a. r = Analyzed ref a \<longrightarrow> in_enums B a) \<and>
           (\<forall>d. r = Listed d \<longrightarrow> (\<forall>a \<in> set (analyses d). in_enums B a)))"
proof (induction calls arbitrary: st rs st')
  case Nil
  then show ?case by simp
next
  case (Cons c cs)
  obtain r st1 where step: "route B c st = (r, st1)" by (cases "route B c st")
  obtain rs1 st2 where rest: "serve B cs st1 = (rs1, st2)" by (cases "serve B cs st1")
  from Cons.prems(2) step rest have eq: "rs = r # rs1" "st' = st2" by simp_all
  note one = route_contained[OF Cons.prems(1) step]
  from one have "\<forall>a \<in> set (derived_rows st1). in_enums B a" by blast
  from Cons.IH[OF this rest] one eq show ?case by simp
qed

lemma append_meeting_not_Forbidden: "append_meeting B now b st \<noteq> Inl Forbidden"
  by (simp add: append_meeting_def Let_def)

lemma analyze_not_Forbidden: "analyze B v now llm mid st \<noteq> Inl Forbidden"
proof
  assume a: "analyze B v now llm mid st = Inl Forbidden"
  then obtain m where
    g: "getOrCompute st (build_key m v) (MeetingRecord.contactId m) now (\<lambda>_. run B llm)
          = Inl Forbidden"
    by (auto simp: analyze_def split: option.splits sum.splits prod.splits)
  then have "run B llm = Inl Forbidden"
    by (auto simp: getOrCompute_def Let_def split: option.splits sum.splits prod.splits)
  then show False
    by (auto simp: run_def dest: run_from_failures)
qed

lemma forContact_not_Forbidden: "forContact B st cid \<noteq> Inl Forbidden"
  by (simp add: forContact_def Let_def)










text \<open>
  A run of the routes from the empty stores: a meeting is ingested; an analysis
  whose outputs are both off the set is refused and nothing is persisted; an analysis
  whose second output is valid is persisted; a caller that is not an operator is
  refused the analysis; the contact is listed for such a caller.
\<close>

lemma demo_run:
  "serve demo_backend demo_calls empty_store
     = ([Created demo_meeting,
         Failure SchemaViolation,
         Analyzed \<lparr>TruthRef.meetingId = ''m1'', contactId = ''c1'',
                   transcriptHash = ''#Hello, thanks for joining...''\<rparr>
                  (demo_analysis ''m1'' ''model-a''),
         Failure Forbidden,
         Listed \<lparr>ContactMeetingsResponse.contactId = ''c1'', meetings = [demo_meeting],
                 analyses = [demo_analysis ''m1'' ''model-a'']\<rparr>],
        demo_store)"
  by code_simp

subsection \<open>Containment of the enumerated fields\<close>

text \<open>
  Claim C4. After any sequence of calls of the routes from the empty stores, every
  analysis that is persisted has its \<open>sentiment\<close> among \<open>positive\<close>, \<open>neutral\<close>,
  \<open>negative\<close> and its \<open>outcome\<close> in the fixed set of outcomes; so has every
  analysis an answer returns (of an analysis, of a listing), and every payload the
  agent returns.
\<close>

theorem enum_containment:
  assumes "serve B calls empty_store = (rs, st)"
  shows "(\<forall>a \<in> set (derived_rows st).
            sentiment (AnalysisRecord.derived a) \<in> set [''positive'', ''neutral'', ''negative''] \<and>
            outcome (AnalysisRecord.derived a) \<in> set (outcomes B)) \<and>
         (\<forall>r \<in> set rs.
            (\<forall>ref a. r = Analyzed ref a \<longrightarrow> in_enums B a) \<and>
            (\<forall>d. r = Listed d \<longrightarrow> (\<forall>a \<in> set (analyses d). in_enums B a))) \<and>
         (\<forall>llm p. run B llm = Inr p \<longrightarrow>
            sentiment p \<in> set sentiments \<and> outcome p \<in> set (outcomes B))"
proof -
  have "\<forall>a \<in> set (derived_rows empty_store). in_enums B a"
    by (simp add: empty_store_def)
  from serve_contained[OF this assms]
  show ?thesis
    by (auto simp: in_enums_def sentiments_def run_def dest: run_from_contained)
qed

theorem enum_containment_witness:
  "serve demo_backend demo_calls empty_store
     = ([Created demo_meeting,
         Failure SchemaViolation,
         Analyzed \<lparr>TruthRef.meetingId = ''m1'', contactId = ''c1'',
                   transcriptHash = ''#Hello, thanks for joining...''\<rparr>
                  (demo_analysis ''m1'' ''model-a''),
         Failure Forbidden,
         Listed \<lparr>ContactMeetingsResponse.contactId = ''c1'', meetings = [demo_meeting],
                 analyses = [demo_analysis ''m1'' ''model-a'']\<rparr>],
        demo_store) \<and>
   derived_rows demo_store = [demo_analysis ''m1'' ''model-a''] \<and>
   in_enums demo_backend (demo_analysis ''m1'' ''model-a'') \<and>
   sentiment (AnalysisRecord.derived (demo_analysis ''m1'' ''model-a'')) = ''positive'' \<and>
   run demo_backend (\<lambda>_. Output ''off'') = Inl SchemaViolation \<and>
   run demo_backend demo_llm = Inr demo_payload"
proof -
  have rows: "derived_rows demo_store = [demo_analysis ''m1'' ''model-a'']"
    by (simp add: demo_store_def)
  from enum_containment[OF demo_run]
  have "\<forall>r \<in> set [Created demo_meeting,
         Failure SchemaViolation,
         Analyzed \<lparr>TruthRef.meetingId = ''m1'', contactId = ''c1'',
                   transcriptHash = ''#Hello, thanks for joining...''\<rparr>
                  (demo_analysis ''m1'' ''model-a''),
         Failure Forbidden,
         Listed \<lparr>ContactMeetingsResponse.contactId = ''c1'', meetings = [demo_meeting],
                 analyses = [demo_analysis ''m1'' ''model-a'']\<rparr>].
            (\<forall>ref a. r = Analyzed ref a \<longrightarrow> in_enums demo_backend a) \<and>
            (\<forall>d. r = Listed d \<longrightarrow> (\<forall>a \<in> set (analyses d). in_enums demo_backend a))"
    by blast
  then have inn: "in_enums demo_backend (demo_analysis ''m1'' ''model-a'')"
    by simp
  have pos: "sentiment (AnalysisRecord.derived (demo_analysis ''m1'' ''model-a'')) = ''positive''"
    by (simp add: demo_analysis_def demo_payload_def)
  have off: "run demo_backend (\<lambda>_. Output ''off'') = Inl SchemaViolation"
    by code_simp
  have valid: "run demo_backend demo_llm = Inr demo_payload"
    by code_simp
  from demo_run rows inn pos off valid show ?thesis by simp
qed

subsection \<open>The role check\<close>

text \<open>
  Claim C5. The routes are gated by the role the caller claims: a write (ingest) and
  an analysis by a caller whose role is not \<open>operator\<close> are answered \<open>Forbidden\<close>
  and change nothing, and are never so answered for an operator; a read is never
  answered \<open>Forbidden\<close> and its answer does not depend on the role. The client claims
  the role \<open>operator\<close> in each of its three requests.
\<close>

theorem role_gate:
  fixes env :: "'n env"
  shows
  "(role \<noteq> ''operator'' \<longrightarrow>
      route B (PostMeetings role b now) st = (Failure Forbidden, st) \<and>
      route B (PostAnalyze role mid v now llm) st = (Failure Forbidden, st)) \<and>
   fst (route B (PostMeetings ''operator'' b now) st) \<noteq> Failure Forbidden \<and>
   fst (route B (PostAnalyze ''operator'' mid v now llm) st) \<noteq> Failure Forbidden \<and>
   fst (route B (GetContactMeetings role cid) st) \<noteq> Failure Forbidden \<and>
   route B (GetContactMeetings role cid) st = route B (GetContactMeetings role' cid) st \<and>
   map_of (headers (ingest_request env b)) ''x-user-role'' = Some ''operator'' \<and>
   map_of (headers (analyze_request env mid)) ''x-user-role'' = Some ''operator'' \<and>
   map_of (headers (contact_request env cid)) ''x-user-role'' = Some ''operator''"
proof -
  have refused: "role \<noteq> ''operator'' \<longrightarrow>
      route B (PostMeetings role b now) st = (Failure Forbidden, st) \<and>
      route B (PostAnalyze role mid v now llm) st = (Failure Forbidden, st)"
    by (simp add: role_allows_def)
  have w: "fst (route B (PostMeetings ''operator'' b now) st) \<noteq> Failure Forbidden"
    using append_meeting_not_Forbidden[of B now b st]
    by (auto simp: role_allows_def split: sum.splits prod.splits)
  have a: "fst (route B (PostAnalyze ''operator'' mid v now llm) st) \<noteq> Failure Forbidden"
    using analyze_not_Forbidden[of B v now llm mid st]
    by (auto simp: role_allows_def split: sum.splits prod.splits)
  have r: "fst (route B (GetContactMeetings role cid) st) \<noteq> Failure Forbidden"
    using forContact_not_Forbidden[of B st cid]
    by (auto simp: role_allows_def split: sum.splits)
  have any: "route B (GetContactMeetings role cid) st = route B (GetContactMeetings role' cid) st"
    by (simp add: role_allows_def)
  have sent: "map_of (headers (ingest_request env b)) ''x-user-role'' = Some ''operator'' \<and>
   map_of (headers (analyze_request env mid)) ''x-user-role'' = Some ''operator'' \<and>
   map_of (headers (contact_request env cid)) ''x-user-role'' = Some ''operator''"
    by (simp add: ingest_request_def analyze_request_def contact_request_def DEFAULT_HEADERS_def)
  from refused w a r any sent show ?thesis by blast
qed

theorem role_gate_witness:
  "''basic'' \<noteq> ''operator'' \<and>
   route demo_backend (PostMeetings ''basic'' demo_body ''2024-01-02T00:00:00.000Z'') empty_store
     = (Failure Forbidden, empty_store) \<and>
   route demo_backend
      (PostAnalyze ''basic'' ''m1'' (demo_versions ''model-b'') ''2024-01-04T00:00:00.000Z''
         demo_llm) demo_store
     = (Failure Forbidden, demo_store) \<and>
   route demo_backend (PostMeetings ''operator'' demo_body ''2024-01-02T00:00:00.000Z'')
      empty_store
     = (Created demo_meeting, \<lparr>truth_rows = [demo_meeting], derived_rows = []\<rparr>) \<and>
   route demo_backend (GetContactMeetings ''basic'' ''c1'') demo_store
     = (Listed \<lparr>ContactMeetingsResponse.contactId = ''c1'', meetings = [demo_meeting],
                 analyses = [demo_analysis ''m1'' ''model-a'']\<rparr>, demo_store) \<and>
   route demo_backend (GetContactMeetings ''operator'' ''c1'') demo_store
     = route demo_backend (GetContactMeetings ''basic'' ''c1'') demo_store"
proof -
  have ne: "''basic'' \<noteq> ''operator''" by simp
  note th = role_gate[of "''basic''" demo_backend demo_body "''2024-01-02T00:00:00.000Z''"
      empty_store "''m1''" "demo_versions ''model-b''" demo_llm "''c1''" "''operator''" demo_env]
  note th' = role_gate[of "''basic''" demo_backend demo_body "''2024-01-04T00:00:00.000Z''"
      demo_store "''m1''" "demo_versions ''model-b''" demo_llm "''c1''" "''operator''" demo_env]
  from th ne have w: "route demo_backend
      (PostMeetings ''basic'' demo_body ''2024-01-02T00:00:00.000Z'') empty_store
     = (Failure Forbidden, empty_store)" by blast
  from th' ne have a: "route demo_backend
      (PostAnalyze ''basic'' ''m1'' (demo_versions ''model-b'') ''2024-01-04T00:00:00.000Z''
         demo_llm) demo_store
     = (Failure Forbidden, demo_store)" by blast
  from th' have same: "route demo_backend (GetContactMeetings ''operator'' ''c1'') demo_store
     = route demo_backend (GetContactMeetings ''basic'' ''c1'') demo_store" by simp
  have op: "route demo_backend (PostMeetings ''operator'' demo_body ''2024-01-02T00:00:00.000Z'')
      empty_store
     = (Created demo_meeting, \<lparr>truth_rows = [demo_meeting], derived_rows = []\<rparr>)"
    by code_simp
  have rd: "route demo_backend (GetContactMeetings ''basic'' ''c1'') demo_store
     = (Listed \<lparr>ContactMeetingsResponse.contactId = ''c1'', meetings = [demo_meeting],
                 analyses = [demo_analysis ''m1'' ''model-a'']\<rparr>, demo_store)"
    by code_simp
  from ne w a op rd same show ?thesis by simp
qed

subsection \<open>What the answers carry\<close>



end
